theory Spec2Isabelle
  imports Main "HOL-Library.Word"
begin

unbundle bit_operations_syntax

section \<open>Data model of the erasure-coded storage simulator\<close>

text \<open>
  The development follows \<^verbatim>\<open>src/VDSimm2-5-26.py\<close> (class \<^verbatim>\<open>ErasureCodedStorage\<close>), the
  variant that has both the write paths and the rebuild path. The functions of
  \<^verbatim>\<open>src/VDATASIM-v2.1.py\<close> that differ from it (\<^verbatim>\<open>check_data_integrity\<close>) and those of
  \<^verbatim>\<open>src/VDATASIM-v1.0.py\<close> and \<^verbatim>\<open>src/VDSimm-v1.1.py\<close> that a property below depends on (the
  weighted chunks of \<^verbatim>\<open>_calculate_global_parity\<close>) are embedded next to them under a suffixed
  name.

  A drive is a file; the file system is a store from drive IDs to byte strings. The model
  covers a pool after \<^verbatim>\<open>initialize_drives\<close>: every drive ID of the topology names a file.
  The hex preview cache (\<^verbatim>\<open>drive_data_preview\<close>) and the progress callbacks are display
  concerns and are left out; neither is read by any function below.
\<close>

type_synonym byte = "8 word"
type_synonym bytes = "byte list"

record local_group =
  g_data_drives :: "nat list"
  g_parity_drive :: "nat option"

record dbox =
  dbox_id :: nat
  data_drives :: "nat list"
  local_groups :: "local_group list"
  local_parity_drives :: "nat list"
  global_parity_drive :: nat
  spare_drives :: "nat list"
  all_drives :: "nat list"

record storage =
  total_drives :: nat
  drive_size :: nat
  chunk_size :: nat
  dboxes_count :: nat
  drives_per_dbox :: nat
  drives :: "nat \<Rightarrow> bytes"
  drive_status :: "bool list"
  stored_file_data :: "bytes option"
  stored_file_name :: "string option"
  ha_mode :: bool
  dboxes :: "dbox list"

text \<open>Python's \<^verbatim>\<open>xs[a:b]\<close> for \<open>0 \<le> a\<close>, \<open>0 \<le> b\<close>.\<close>

definition slice :: "'a list \<Rightarrow> nat \<Rightarrow> nat \<Rightarrow> 'a list" where
  "slice xs a b = take (b - a) (drop a xs)"

text \<open>\<^verbatim>\<open>_configure_dboxes\<close>: the layout constants 38, 41, 42, 44, 13 and 3 are literals in the source.\<close>

definition configure_dboxes :: "nat \<Rightarrow> nat \<Rightarrow> dbox list" where
  "configure_dboxes count per_dbox =
     map (\<lambda>i.
       let base_drive = i * per_dbox;
           dd = [base_drive ..< base_drive + 38];
           lp = [base_drive + 38 ..< base_drive + 41]
       in \<lparr> dbox_id = i,
            data_drives = dd,
            local_groups =
              map (\<lambda>k. \<lparr> g_data_drives = slice dd (k * 13) (min (k * 13 + 13) 38),
                         g_parity_drive = (if k < length lp then Some (lp ! k) else None) \<rparr>)
                  [0 ..< 3],
            local_parity_drives = lp,
            global_parity_drive = base_drive + 41,
            spare_drives = [base_drive + 42 ..< base_drive + 44],
            all_drives = [base_drive ..< base_drive + 44] \<rparr>)
     [0 ..< count]"

text \<open>\<^verbatim>\<open>__init__\<close> followed by \<^verbatim>\<open>initialize_drives\<close>: 484 zero-filled files of 1 MiB.\<close>

definition init_storage :: storage where
  "init_storage =
     \<lparr> total_drives = 484,
       drive_size = 1024 * 1024,
       chunk_size = 4096,
       dboxes_count = 11,
       drives_per_dbox = 44,
       drives = (\<lambda>i. if i < 484 then replicate (1024 * 1024) 0 else []),
       drive_status = replicate 484 True,
       stored_file_data = None,
       stored_file_name = None,
       ha_mode = False,
       dboxes = configure_dboxes 11 44 \<rparr>"

definition get_all_data_drives :: "storage \<Rightarrow> nat list" where
  "get_all_data_drives s = concat (map data_drives (dboxes s))"

definition get_dbox_for_drive :: "storage \<Rightarrow> nat \<Rightarrow> nat" where
  "get_dbox_for_drive s drive_id = drive_id div drives_per_dbox s"

subsection \<open>Files\<close>

text \<open>\<^verbatim>\<open>f.seek(off); f.read(n)\<close> on a file opened for reading.\<close>

definition read_at :: "bytes \<Rightarrow> nat \<Rightarrow> nat \<Rightarrow> bytes" where
  "read_at content off n = take n (drop off content)"

text \<open>\<^verbatim>\<open>bytes.ljust(n, b'\x00')\<close>.\<close>

definition ljust :: "bytes \<Rightarrow> nat \<Rightarrow> bytes" where
  "ljust b n = b @ replicate (n - length b) 0"

text \<open>The chunk of drive \<open>d\<close> at chunk index \<open>idx\<close>, as every parity loop reads it.\<close>

definition read_chunk :: "storage \<Rightarrow> nat \<Rightarrow> nat \<Rightarrow> bytes" where
  "read_chunk s d idx = read_at (drives s d) (idx * chunk_size s) (chunk_size s)"

subsection \<open>Exceptions\<close>

text \<open>The exceptions that the modelled code can raise; a function that can raise returns a sum.\<close>

datatype py_error = IndexError | ValueError | TypeError | StructError | OverflowError

text \<open>A \<^verbatim>\<open>for\<close> loop over a list whose body updates the state and may raise.\<close>

fun for_each :: "('a \<Rightarrow> 's \<Rightarrow> py_error + 's) \<Rightarrow> 'a list \<Rightarrow> 's \<Rightarrow> py_error + 's" where
  "for_each body [] s = Inr s"
| "for_each body (x # xs) s =
     (case body x s of Inl e \<Rightarrow> Inl e | Inr s' \<Rightarrow> for_each body xs s')"

subsection \<open>Parity\<close>

text \<open>
  \<^verbatim>\<open>parity ^= chunk\<close> on NumPy arrays of \<^verbatim>\<open>uint8\<close>, in place: a chunk as long as \<^verbatim>\<open>parity\<close>
  is combined bytewise, a chunk of one byte is broadcast, and any other length raises
  \<^verbatim>\<open>ValueError\<close>.
\<close>

definition xor_into :: "bytes \<Rightarrow> bytes \<Rightarrow> py_error + bytes" where
  "xor_into parity chunk =
     (if length chunk = length parity then Inr (map2 (XOR) parity chunk)
      else if length chunk = 1 then Inr (map (\<lambda>p. p XOR hd chunk) parity)
      else Inl ValueError)"

text \<open>\<^verbatim>\<open>calculate_parity\<close>: the loop over the chunks, then the function.\<close>

fun xor_chunks :: "bytes list \<Rightarrow> bytes \<Rightarrow> py_error + bytes" where
  "xor_chunks [] parity = Inr parity"
| "xor_chunks (chunk # rest) parity =
     (case xor_into parity chunk of
        Inl e \<Rightarrow> Inl e
      | Inr parity' \<Rightarrow> xor_chunks rest parity')"

definition calculate_parity :: "nat \<Rightarrow> bytes list \<Rightarrow> py_error + bytes" where
  "calculate_parity csize data_chunks =
     (if length data_chunks = 0 then Inr (replicate csize 0)
      else xor_chunks data_chunks (replicate csize 0))"

text \<open>
  The loop \<^verbatim>\<open>for chunk_idx in range(...)\<close> that every parity function runs: the parity of the
  chunks found at \<open>chunk_idx\<close> is appended to \<^verbatim>\<open>parity_data\<close>.
\<close>

fun parity_loop ::
  "nat \<Rightarrow> (nat \<Rightarrow> bytes list) \<Rightarrow> nat list \<Rightarrow> bytes \<Rightarrow> py_error + bytes" where
  "parity_loop csize chunks_at [] parity_data = Inr parity_data"
| "parity_loop csize chunks_at (chunk_idx # rest) parity_data =
     (case calculate_parity csize (chunks_at chunk_idx) of
        Inl e \<Rightarrow> Inl e
      | Inr parity_chunk \<Rightarrow> parity_loop csize chunks_at rest (parity_data @ parity_chunk))"

text \<open>
  The weighting of \<^verbatim>\<open>_calculate_global_parity_dbox\<close> (and, with \<^verbatim>\<open>%\<close> for
  \<^verbatim>\<open>np.remainder\<close>, of \<^verbatim>\<open>_calculate_global_parity_dnode\<close> in v2.1):
  \<^verbatim>\<open>weight = np.uint8((drive_id % 255) + 1)\<close>,
  \<^verbatim>\<open>np.remainder(chunk.astype(np.uint16) * weight, 256).astype(np.uint8)\<close>.
\<close>

definition weight :: "nat \<Rightarrow> byte" where
  "weight drive_id = of_nat ((drive_id mod 255) + 1)"

text \<open>\<^verbatim>\<open>chunk.astype(np.uint16) * weight\<close>, bytewise: the product is an unsigned 16-bit integer.\<close>

definition widened_product :: "nat \<Rightarrow> byte \<Rightarrow> 16 word" where
  "widened_product drive_id b = (ucast b :: 16 word) * (ucast (weight drive_id) :: 16 word)"

text \<open>The remainder modulo 256 of that product, \<^verbatim>\<open>.astype(np.uint8)\<close>.\<close>

definition weighted_byte :: "nat \<Rightarrow> byte \<Rightarrow> byte" where
  "weighted_byte drive_id b = ucast ((widened_product drive_id b mod 256) :: 16 word)"

definition weighted :: "nat \<Rightarrow> bytes \<Rightarrow> bytes" where
  "weighted drive_id chunk = map (weighted_byte drive_id) chunk"


subsection \<open>Local and global parity of a group and of a Dbox\<close>

text \<open>
  The inner loop of \<^verbatim>\<open>_calculate_local_parity_group\<close>: the chunks at \<open>chunk_idx\<close> of the
  drives whose status is online, kept when the read returned a full chunk.
\<close>

definition local_chunks :: "storage \<Rightarrow> nat list \<Rightarrow> nat \<Rightarrow> bytes list" where
  "local_chunks s ds chunk_idx =
     filter (\<lambda>chunk. length chunk = chunk_size s)
       (map (\<lambda>drive_id. read_chunk s drive_id chunk_idx)
          (filter (\<lambda>drive_id. drive_status s ! drive_id) ds))"

definition write_file :: "storage \<Rightarrow> nat \<Rightarrow> bytes \<Rightarrow> storage" where
  "write_file s drive_id content = s\<lparr>drives := (drives s)(drive_id := content)\<rparr>"

definition calculate_local_parity_group ::
  "storage \<Rightarrow> local_group \<Rightarrow> nat \<Rightarrow> py_error + storage" where
  "calculate_local_parity_group s grp chunks_per_drive =
     (case g_parity_drive grp of
        None \<Rightarrow> Inr s
      | Some parity_drive \<Rightarrow>
          (case parity_loop (chunk_size s) (local_chunks s (g_data_drives grp))
                  [0 ..< chunks_per_drive] [] of
             Inl e \<Rightarrow> Inl e
           | Inr parity_data \<Rightarrow>
               Inr (write_file s parity_drive (ljust parity_data (drive_size s)))))"

text \<open>The inner loop of \<^verbatim>\<open>_calculate_global_parity_dbox\<close>, with the weighting.\<close>

definition global_chunks :: "storage \<Rightarrow> nat list \<Rightarrow> nat \<Rightarrow> bytes list" where
  "global_chunks s ds chunk_idx =
     map (\<lambda>drive_id. weighted drive_id (read_chunk s drive_id chunk_idx))
       (filter (\<lambda>drive_id. length (read_chunk s drive_id chunk_idx) = chunk_size s)
          (filter (\<lambda>drive_id. drive_status s ! drive_id) ds))"

definition calculate_global_parity_dbox :: "storage \<Rightarrow> dbox \<Rightarrow> nat \<Rightarrow> py_error + storage" where
  "calculate_global_parity_dbox s dbox chunks_per_drive =
     (case parity_loop (chunk_size s) (global_chunks s (data_drives dbox))
             [0 ..< chunks_per_drive] [] of
        Inl e \<Rightarrow> Inl e
      | Inr parity_data \<Rightarrow>
          Inr (write_file s (global_parity_drive dbox) (ljust parity_data (drive_size s))))"

subsection \<open>Normal-mode write\<close>

datatype message =
    NoFilesSelected
  | FilesTooLarge nat int
  | NoDataDrivesAvailable
  | HARequires18 nat
  | Wrote nat nat
  | HAWrote nat nat

text \<open>The inner \<^verbatim>\<open>for _ in range(chunks_per_drive)\<close> loop that builds one drive's data.\<close>

fun fill_drive :: "nat \<Rightarrow> nat \<Rightarrow> bytes \<Rightarrow> nat \<Rightarrow> nat \<Rightarrow> bytes \<Rightarrow> nat \<times> bytes" where
  "fill_drive csize num_chunks data 0 chunk_index drive_data = (chunk_index, drive_data)"
| "fill_drive csize num_chunks data (Suc k) chunk_index drive_data =
     (if chunk_index < num_chunks
      then fill_drive csize num_chunks data k (chunk_index + 1)
             (drive_data @ slice data (chunk_index * csize) (chunk_index * csize + csize))
      else fill_drive csize num_chunks data k chunk_index
             (drive_data @ replicate csize 0))"

text \<open>The outer \<^verbatim>\<open>for drive_id in available_drives\<close> loop.\<close>

fun distribute :: "storage \<Rightarrow> bytes \<Rightarrow> nat \<Rightarrow> nat \<Rightarrow> nat list \<Rightarrow> nat \<Rightarrow> storage" where
  "distribute s data num_chunks chunks_per_drive [] chunk_index = s"
| "distribute s data num_chunks chunks_per_drive (drive_id # rest) chunk_index =
     (case fill_drive (chunk_size s) num_chunks data chunks_per_drive chunk_index [] of
        (chunk_index', drive_data) \<Rightarrow>
          distribute (write_file s drive_id (ljust drive_data (drive_size s)))
            data num_chunks chunks_per_drive rest chunk_index')"

definition all_local_parity :: "storage \<Rightarrow> nat \<Rightarrow> py_error + storage" where
  "all_local_parity s chunks_per_drive =
     for_each (\<lambda>dbox s1.
                 for_each (\<lambda>grp s2. calculate_local_parity_group s2 grp chunks_per_drive)
                          (local_groups dbox) s1)
              (dboxes s) s"

definition all_global_parity :: "storage \<Rightarrow> nat \<Rightarrow> py_error + storage" where
  "all_global_parity s chunks_per_drive =
     for_each (\<lambda>dbox s1. calculate_global_parity_dbox s1 dbox chunks_per_drive) (dboxes s) s"

definition clear_spares :: "storage \<Rightarrow> storage" where
  "clear_spares s =
     fold (\<lambda>dbox s1.
             fold (\<lambda>spare_id s2. write_file s2 spare_id (replicate (drive_size s2) 0))
                  (spare_drives dbox) s1)
          (dboxes s) s"

definition write_data_normal_mode ::
  "storage \<Rightarrow> bytes \<Rightarrow> py_error + (bool \<times> message) \<times> storage" where
  "write_data_normal_mode s data =
     (let num_chunks = length data div chunk_size s;
          available_drives = filter (\<lambda>d. drive_status s ! d) (get_all_data_drives s)
      in if length available_drives = 0 then Inr ((False, NoDataDrivesAvailable), s)
         else
           let chunks_per_drive =
                 (num_chunks + length available_drives - 1) div length available_drives;
               s1 = distribute s data num_chunks chunks_per_drive available_drives 0
           in (case all_local_parity s1 chunks_per_drive of
                 Inl e \<Rightarrow> Inl e
               | Inr s2 \<Rightarrow>
                   (case all_global_parity s2 chunks_per_drive of
                      Inl e \<Rightarrow> Inl e
                    | Inr s3 \<Rightarrow>
                        Inr ((True, Wrote (length data) (length available_drives)),
                             clear_spares s3))))"


subsection \<open>HA-mode write\<close>

text \<open>
  The selection loop of \<^verbatim>\<open>_write_data_ha_mode\<close>:
  \<^verbatim>\<open>[d for d in dbox['data_drives'][:2] if self.drive_status[d]]\<close>, then \<^verbatim>\<open>[:2]\<close> of that.
\<close>

definition ha_select :: "storage \<Rightarrow> nat list" where
  "ha_select s =
     concat (map (\<lambda>dbox. take 2 (filter (\<lambda>d. drive_status s ! d) (take 2 (data_drives dbox))))
                 (dboxes s))"

text \<open>
  \<^verbatim>\<open>f.seek(off); f.write(b)\<close> on a file opened \<^verbatim>\<open>'r+b'\<close>: the bytes from \<open>off\<close> on are
  overwritten, the rest is kept, and a seek past the end leaves a gap of zero bytes.
\<close>

definition write_at :: "bytes \<Rightarrow> nat \<Rightarrow> bytes \<Rightarrow> bytes" where
  "write_at content off b =
     take off content @ replicate (off - length content) 0 @ b @ drop (off + length b) content"

text \<open>The inner \<^verbatim>\<open>for drive_id in selected_drives\<close> loop of one stripe, with its \<^verbatim>\<open>break\<close>.\<close>

fun stripe_pass :: "storage \<Rightarrow> bytes \<Rightarrow> nat \<Rightarrow> nat \<Rightarrow> nat list \<Rightarrow> nat \<Rightarrow> storage \<times> nat" where
  "stripe_pass s data num_chunks stripe_index [] chunk_index = (s, chunk_index)"
| "stripe_pass s data num_chunks stripe_index (drive_id # rest) chunk_index =
     (if chunk_index < num_chunks
      then
        let chunk_data = slice data (chunk_index * chunk_size s)
                                    (chunk_index * chunk_size s + chunk_size s);
            s' = write_file s drive_id
                   (write_at (drives s drive_id) (stripe_index * chunk_size s) chunk_data)
        in stripe_pass s' data num_chunks stripe_index rest (chunk_index + 1)
      else (s, chunk_index))"

text \<open>
  The outer \<^verbatim>\<open>while chunk_index < num_chunks\<close> loop. With an empty drive list it would not
  end, so the result is optional; \<open>None\<close> is the loop that never returns.
\<close>

partial_function (option) stripe_loop ::
  "storage \<Rightarrow> bytes \<Rightarrow> nat \<Rightarrow> nat list \<Rightarrow> nat \<Rightarrow> nat \<Rightarrow> (storage \<times> nat) option" where
  "stripe_loop s data num_chunks selected stripe_index chunk_index =
     (if chunk_index < num_chunks
      then (case stripe_pass s data num_chunks stripe_index selected chunk_index of
              (s', chunk_index') \<Rightarrow>
                stripe_loop s' data num_chunks selected (stripe_index + 1) chunk_index')
      else Some (s, stripe_index))"

text \<open>\<^verbatim>\<open>_calculate_ha_parity\<close>: the parity drives are taken from the first four Dboxes.\<close>

fun ha_parity_targets ::
  "(nat \<times> dbox) list \<Rightarrow> nat list \<Rightarrow> nat list \<Rightarrow> py_error + (nat list \<times> nat list)" where
  "ha_parity_targets [] lp gp = Inr (lp, gp)"
| "ha_parity_targets ((i, dbox) # rest) lp gp =
     (if i < 2
      then (case local_parity_drives dbox of
              [] \<Rightarrow> Inl IndexError
            | p # _ \<Rightarrow> ha_parity_targets rest (lp @ [p]) gp)
      else ha_parity_targets rest lp (gp @ [global_parity_drive dbox]))"

definition ha_chunks :: "storage \<Rightarrow> nat list \<Rightarrow> nat \<Rightarrow> bytes list" where
  "ha_chunks s ds stripe_idx =
     filter (\<lambda>chunk. length chunk = chunk_size s)
       (map (\<lambda>drive_id. read_chunk s drive_id stripe_idx) ds)"

definition ha_parity_write :: "storage \<Rightarrow> nat list \<Rightarrow> nat \<Rightarrow> nat \<Rightarrow> py_error + storage" where
  "ha_parity_write s ds num_stripes parity_drive =
     (case parity_loop (chunk_size s) (ha_chunks s ds) [0 ..< num_stripes] [] of
        Inl e \<Rightarrow> Inl e
      | Inr parity_data \<Rightarrow> Inr (write_file s parity_drive (ljust parity_data (drive_size s))))"

definition calculate_ha_parity :: "storage \<Rightarrow> nat list \<Rightarrow> nat \<Rightarrow> py_error + storage" where
  "calculate_ha_parity s sel num_stripes =
     (case ha_parity_targets (enumerate 0 (take 4 (dboxes s))) [] [] of
        Inl e \<Rightarrow> Inl e
      | Inr (lp, gp) \<Rightarrow>
          (case for_each (\<lambda>(parity_idx, parity_drive) s'.
                           ha_parity_write s' (slice sel (parity_idx * 9) (parity_idx * 9 + 9))
                             num_stripes parity_drive)
                         (enumerate 0 lp) s of
             Inl e \<Rightarrow> Inl e
           | Inr s1 \<Rightarrow>
               for_each (\<lambda>parity_drive s'. ha_parity_write s' sel num_stripes parity_drive)
                        gp s1))"

definition write_data_ha_mode ::
  "storage \<Rightarrow> bytes \<Rightarrow> (py_error + (bool \<times> message) \<times> storage) option" where
  "write_data_ha_mode s data =
     (let num_chunks = length data div chunk_size s;
          selected = ha_select s
      in if length selected < 18
         then Some (Inr ((False, HARequires18 (length selected)), s))
         else
           let selected_drives = take 18 selected
           in (case stripe_loop s data num_chunks selected_drives 0 0 of
                 None \<Rightarrow> None
               | Some (s1, stripe_index) \<Rightarrow>
                   (case calculate_ha_parity s1 selected_drives stripe_index of
                      Inl e \<Rightarrow> Some (Inl e)
                    | Inr s2 \<Rightarrow>
                        Some (Inr ((True, HAWrote (length data) (length selected_drives)), s2)))))"

subsection \<open>Packing the input files and the capacity check\<close>

text \<open>An input file that exists: its path and its contents.\<close>

type_synonym input_file = "string \<times> bytes"

definition basename :: "string \<Rightarrow> string" where
  "basename p = rev (takeWhile (\<lambda>c. c \<noteq> CHR ''/'') (rev p))"

text \<open>
  \<^verbatim>\<open>struct.pack('I', n)\<close> and \<^verbatim>\<open>struct.pack('Q', n)\<close>: 4 and 8 bytes in native order, taken
  little-endian here; a value that does not fit raises \<^verbatim>\<open>struct.error\<close>.
\<close>

definition le_bytes :: "nat \<Rightarrow> nat \<Rightarrow> bytes" where
  "le_bytes k n = map (\<lambda>i. of_nat (n div 256 ^ i)) [0 ..< k]"

definition pack_I :: "nat \<Rightarrow> py_error + bytes" where
  "pack_I n = (if n < 2 ^ 32 then Inr (le_bytes 4 n) else Inl StructError)"

definition pack_Q :: "nat \<Rightarrow> py_error + bytes" where
  "pack_Q n = (if n < 2 ^ 64 then Inr (le_bytes 8 n) else Inl StructError)"

fun combine_files :: "input_file list \<Rightarrow> bytes \<Rightarrow> py_error + bytes" where
  "combine_files [] combined_data = Inr combined_data"
| "combine_files ((filepath, file_data) # rest) combined_data =
     (let filename_bytes = map of_char (basename filepath)
      in case pack_I (length filename_bytes) of
           Inl e \<Rightarrow> Inl e
         | Inr h1 \<Rightarrow>
             (case pack_Q (length file_data) of
                Inl e \<Rightarrow> Inl e
              | Inr h2 \<Rightarrow>
                  combine_files rest (combined_data @ (h1 @ filename_bytes @ h2) @ file_data)))"

text \<open>\<^verbatim>\<open>get_storage_stats\<close>: total, used and available, as Python integers.\<close>

definition get_storage_stats :: "storage \<Rightarrow> int \<times> int \<times> int" where
  "get_storage_stats s =
     (let total_capacity =
            (if ha_mode s then 18 * int (drive_size s)
             else int (length (get_all_data_drives s)) * int (drive_size s));
          used_space =
            (case stored_file_data s of
               None \<Rightarrow> 0
             | Some d \<Rightarrow> if d = [] then 0 else int (length d))
      in (total_capacity, used_space, total_capacity - used_space))"

definition write_files ::
  "storage \<Rightarrow> input_file list \<Rightarrow> (py_error + (bool \<times> message) \<times> storage) option" where
  "write_files s input_files =
     (if input_files = [] then Some (Inr ((False, NoFilesSelected), s))
      else
        (case combine_files input_files [] of
           Inl e \<Rightarrow> Some (Inl e)
         | Inr combined_data \<Rightarrow>
             let s1 = s\<lparr> stored_file_data := Some combined_data,
                        stored_file_name :=
                          Some (if length input_files = 1 then fst (hd input_files)
                                else ''combined_files.dat'') \<rparr>
             in (case get_storage_stats s1 of
                   (tot, used, available) \<Rightarrow>
                     if int (length combined_data) > available
                     then Some (Inr ((False, FilesTooLarge (length combined_data) available), s1))
                     else
                       let padded_size =
                             ((length combined_data + chunk_size s1 - 1) div chunk_size s1)
                               * chunk_size s1;
                           padded = ljust combined_data padded_size
                       in if ha_mode s1 then write_data_ha_mode s1 padded
                          else Some (write_data_normal_mode s1 padded))))"


subsection \<open>Rebuild\<close>

datatype drive_type = Data | LocalParity | GlobalParity | HotSpare | Unknown

fun get_drive_type_in :: "dbox list \<Rightarrow> nat \<Rightarrow> drive_type" where
  "get_drive_type_in [] drive_id = Unknown"
| "get_drive_type_in (dbox # rest) drive_id =
     (if drive_id \<in> set (data_drives dbox) then Data
      else if drive_id \<in> set (local_parity_drives dbox) then LocalParity
      else if drive_id = global_parity_drive dbox then GlobalParity
      else if drive_id \<in> set (spare_drives dbox) then HotSpare
      else get_drive_type_in rest drive_id)"

definition get_drive_type :: "storage \<Rightarrow> nat \<Rightarrow> drive_type" where
  "get_drive_type s drive_id = get_drive_type_in (dboxes s) drive_id"

text \<open>
  One pass of the chunk loop of \<^verbatim>\<open>_rebuild_data_drive\<close>. The parity chunk is appended
  without a length check, the chunks of the other drives when they are full.
\<close>

definition rebuild_chunk ::
  "storage \<Rightarrow> nat \<Rightarrow> nat \<Rightarrow> nat list \<Rightarrow> nat \<Rightarrow> py_error + (bytes \<times> nat list)" where
  "rebuild_chunk s parity_drive failed_drive ds chunk_idx =
     (let parity_chunk = read_chunk s parity_drive chunk_idx;
          others = filter (\<lambda>drive_id. drive_id \<noteq> failed_drive \<and> drive_status s ! drive_id
                              \<and> length (read_chunk s drive_id chunk_idx) = chunk_size s) ds;
          other_chunks = map (\<lambda>drive_id. read_chunk s drive_id chunk_idx) others
      in case calculate_parity (chunk_size s) (parity_chunk # other_chunks) of
           Inl e \<Rightarrow> Inl e
         | Inr rebuilt_chunk \<Rightarrow> Inr (rebuilt_chunk, parity_drive # others))"

fun rebuild_loop ::
  "storage \<Rightarrow> nat \<Rightarrow> nat \<Rightarrow> nat list \<Rightarrow> nat list \<Rightarrow> bytes \<Rightarrow> nat list
     \<Rightarrow> py_error + (bytes \<times> nat list)" where
  "rebuild_loop s parity_drive failed_drive ds [] rebuilt_data drives_read =
     Inr (rebuilt_data, drives_read)"
| "rebuild_loop s parity_drive failed_drive ds (chunk_idx # rest) rebuilt_data drives_read =
     (case rebuild_chunk s parity_drive failed_drive ds chunk_idx of
        Inl e \<Rightarrow> Inl e
      | Inr (rebuilt_chunk, rd) \<Rightarrow>
          rebuild_loop s parity_drive failed_drive ds rest
            (rebuilt_data @ rebuilt_chunk) (drives_read @ rd))"

text \<open>
  \<^verbatim>\<open>_rebuild_data_drive\<close> returns \<^verbatim>\<open>list(set(drives_read))\<close>, a list without duplicates in
  no particular order: a set. A group without a parity drive makes the first read raise
  \<^verbatim>\<open>TypeError\<close> (\<^verbatim>\<open>self.drives[None]\<close>).
\<close>

definition rebuild_data_drive ::
  "storage \<Rightarrow> nat \<Rightarrow> local_group \<Rightarrow> py_error + (nat set \<times> storage)" where
  "rebuild_data_drive s failed_drive grp =
     (let chunks_per_drive = drive_size s div chunk_size s
      in case g_parity_drive grp of
           None \<Rightarrow>
             if chunks_per_drive = 0 then Inr ({}, write_file s failed_drive [])
             else Inl TypeError
         | Some parity_drive \<Rightarrow>
             (case rebuild_loop s parity_drive failed_drive (g_data_drives grp)
                     [0 ..< chunks_per_drive] [] [] of
                Inl e \<Rightarrow> Inl e
              | Inr (rebuilt_data, drives_read) \<Rightarrow>
                  Inr (set drives_read, write_file s failed_drive rebuilt_data)))"

datatype rebuild_msg =
    LocalRebuild nat nat
  | ParityRebuild nat nat
  | GlobalParityRebuild nat nat

text \<open>The first group of the list that satisfies the test of the \<^verbatim>\<open>for ... break\<close> loops.\<close>

fun find_group :: "(local_group \<Rightarrow> bool) \<Rightarrow> local_group list \<Rightarrow> local_group option" where
  "find_group P [] = None"
| "find_group P (grp # rest) = (if P grp then Some grp else find_group P rest)"

text \<open>The dispatch on the drive type inside the loop of \<^verbatim>\<open>rebuild_drives\<close>.\<close>

definition rebuild_one ::
  "storage \<Rightarrow> dbox \<Rightarrow> nat \<Rightarrow> nat set \<Rightarrow> rebuild_msg list
     \<Rightarrow> py_error + (nat set \<times> rebuild_msg list \<times> storage)" where
  "rebuild_one s dbox failed_drive drives_read rebuild_info =
     (case get_drive_type s failed_drive of
        Data \<Rightarrow>
          (case find_group (\<lambda>grp. failed_drive \<in> set (g_data_drives grp)) (local_groups dbox) of
             None \<Rightarrow> Inr (drives_read, rebuild_info, s)
           | Some grp \<Rightarrow>
               (case rebuild_data_drive s failed_drive grp of
                  Inl e \<Rightarrow> Inl e
                | Inr (read_drives, s') \<Rightarrow>
                    Inr (drives_read \<union> read_drives,
                         rebuild_info @ [LocalRebuild failed_drive (card read_drives)], s')))
      | LocalParity \<Rightarrow>
          (case find_group (\<lambda>grp. g_parity_drive grp = Some failed_drive) (local_groups dbox) of
             None \<Rightarrow> Inr (drives_read, rebuild_info, s)
           | Some grp \<Rightarrow>
               (case calculate_local_parity_group s grp (drive_size s div chunk_size s) of
                  Inl e \<Rightarrow> Inl e
                | Inr s' \<Rightarrow>
                    Inr (drives_read \<union> set (g_data_drives grp),
                         rebuild_info @ [ParityRebuild failed_drive (length (g_data_drives grp))],
                         s')))
      | GlobalParity \<Rightarrow>
          (case calculate_global_parity_dbox s dbox (drive_size s div chunk_size s) of
             Inl e \<Rightarrow> Inl e
           | Inr s' \<Rightarrow>
               Inr (drives_read \<union> set (data_drives dbox),
                    rebuild_info @ [GlobalParityRebuild failed_drive (length (data_drives dbox))],
                    s'))
      | HotSpare \<Rightarrow> Inr (drives_read, rebuild_info, s)
      | Unknown \<Rightarrow> Inr (drives_read, rebuild_info, s))"

fun rebuild_drives_loop ::
  "storage \<Rightarrow> nat list \<Rightarrow> bool \<Rightarrow> nat set \<Rightarrow> rebuild_msg list
     \<Rightarrow> py_error + (nat set \<times> rebuild_msg list \<times> storage)" where
  "rebuild_drives_loop s [] bring_online drives_read rebuild_info =
     Inr (drives_read, rebuild_info, s)"
| "rebuild_drives_loop s (failed_drive # rest) bring_online drives_read rebuild_info =
     (if \<not> failed_drive < length (drive_status s) then Inl IndexError
      else if drive_status s ! failed_drive
      then rebuild_drives_loop s rest bring_online drives_read rebuild_info
      else
        let dbox_id' = get_dbox_for_drive s failed_drive
        in if \<not> dbox_id' < length (dboxes s) then Inl IndexError
           else
             (case rebuild_one s (dboxes s ! dbox_id') failed_drive drives_read rebuild_info of
                Inl e \<Rightarrow> Inl e
              | Inr (drives_read', rebuild_info', s') \<Rightarrow>
                  rebuild_drives_loop
                    (if bring_online
                     then s'\<lparr>drive_status := (drive_status s')[failed_drive := True]\<rparr>
                     else s')
                    rest bring_online drives_read' rebuild_info'))"

definition rebuild_drives ::
  "storage \<Rightarrow> nat list \<Rightarrow> bool \<Rightarrow> py_error + (nat set \<times> rebuild_msg list \<times> storage)" where
  "rebuild_drives s failed_drives bring_online =
     rebuild_drives_loop s failed_drives bring_online {} []"

subsection \<open>Integrity check\<close>

datatype integrity_msg = AllDrivesOnline | DataAtRisk "nat list" | Recoverable nat

definition offline_drives :: "storage \<Rightarrow> nat list" where
  "offline_drives s = filter (\<lambda>i. \<not> drive_status s ! i) [0 ..< length (drive_status s)]"

definition group_failures :: "storage \<Rightarrow> local_group \<Rightarrow> nat" where
  "group_failures s grp = length (filter (\<lambda>d. \<not> drive_status s ! d) (g_data_drives grp))"

definition max_group_failures :: "storage \<Rightarrow> dbox \<Rightarrow> nat" where
  "max_group_failures s dbox =
     fold (\<lambda>grp m. max m (group_failures s grp)) (local_groups dbox) 0"

text \<open>The loop over the Dboxes of \<^verbatim>\<open>check_data_integrity\<close> in \<^verbatim>\<open>VDSimm2-5-26.py\<close>.\<close>

fun scan_dboxes :: "storage \<Rightarrow> nat list \<Rightarrow> dbox list \<Rightarrow> nat list \<Rightarrow> nat list" where
  "scan_dboxes s offline [] vulnerable = vulnerable"
| "scan_dboxes s offline (dbox # rest) vulnerable =
     (let dbox_failures = filter (\<lambda>d. d \<in> set (all_drives dbox)) offline
      in if length dbox_failures = 0 then scan_dboxes s offline rest vulnerable
         else if max_group_failures s dbox > 2
         then scan_dboxes s offline rest (vulnerable @ [dbox_id dbox])
         else scan_dboxes s offline rest vulnerable)"

text \<open>
  The result of the check with the pool as it is left: the source assigns to no attribute,
  so the pool is returned as it came.
\<close>

definition check_data_integrity :: "storage \<Rightarrow> (bool \<times> integrity_msg \<times> nat list) \<times> storage" where
  "check_data_integrity s =
     (let offline = offline_drives s
      in if length offline = 0 then ((True, AllDrivesOnline, []), s)
         else
           let vulnerable_dboxes = scan_dboxes s offline (dboxes s) []
           in if length vulnerable_dboxes > 0
              then ((False, DataAtRisk vulnerable_dboxes, vulnerable_dboxes), s)
              else ((True, Recoverable (length offline), []), s))"

text \<open>
  The same loop in \<^verbatim>\<open>VDATASIM-v2.1.py\<close> (its Dnodes are the Dboxes of the later file), which
  has one more branch: two failures in a group together with a failed local-parity drive.
\<close>

fun scan_dnodes_v21 :: "storage \<Rightarrow> nat list \<Rightarrow> dbox list \<Rightarrow> nat list \<Rightarrow> nat list" where
  "scan_dnodes_v21 s offline [] vulnerable = vulnerable"
| "scan_dnodes_v21 s offline (dnode # rest) vulnerable =
     (let dnode_failures = filter (\<lambda>d. d \<in> set (all_drives dnode)) offline
      in if length dnode_failures = 0 then scan_dnodes_v21 s offline rest vulnerable
         else
           let local_parity_failures =
                 filter (\<lambda>d. d \<in> set (local_parity_drives dnode)) dnode_failures
           in if max_group_failures s dnode > 2
              then scan_dnodes_v21 s offline rest (vulnerable @ [dbox_id dnode])
              else if max_group_failures s dnode = 2 \<and> length local_parity_failures > 0
              then scan_dnodes_v21 s offline rest (vulnerable @ [dbox_id dnode])
              else scan_dnodes_v21 s offline rest vulnerable)"

definition check_data_integrity_v21 ::
  "storage \<Rightarrow> (bool \<times> integrity_msg \<times> nat list) \<times> storage" where
  "check_data_integrity_v21 s =
     (let offline = offline_drives s
      in if length offline = 0 then ((True, AllDrivesOnline, []), s)
         else
           let vulnerable_dnodes = scan_dnodes_v21 s offline (dboxes s) []
           in if length vulnerable_dnodes > 0
              then ((False, DataAtRisk vulnerable_dnodes, vulnerable_dnodes), s)
              else ((True, Recoverable (length offline), []), s))"

subsection \<open>The weighted chunks of the two older files\<close>






section \<open>Notions used in the statements\<close>


text \<open>The bytewise XOR of two chunks, and of a list of chunks of \<open>n\<close> bytes each.\<close>

definition xor2 :: "bytes \<Rightarrow> bytes \<Rightarrow> bytes" where
  "xor2 p c = map2 (XOR) p c"

definition xor_fold :: "nat \<Rightarrow> bytes list \<Rightarrow> bytes" where
  "xor_fold n cs = fold (\<lambda>c p. xor2 p c) cs (replicate n 0)"


text \<open>The name and the state that \<^verbatim>\<open>write_files\<close> stores before it checks the capacity.\<close>

definition stored_name :: "input_file list \<Rightarrow> string" where
  "stored_name input_files =
     (if length input_files = 1 then fst (hd input_files) else ''combined_files.dat'')"

definition store_metadata :: "storage \<Rightarrow> bytes \<Rightarrow> input_file list \<Rightarrow> storage" where
  "store_metadata s combined input_files =
     s\<lparr>stored_file_data := Some combined, stored_file_name := Some (stored_name input_files)\<rparr>"


text \<open>
  The Dbox that \<^verbatim>\<open>_configure_dboxes\<close> builds for index \<open>i\<close>, with the slices of the three local
  groups written out.
\<close>

definition dbox_layout :: "nat \<Rightarrow> nat \<Rightarrow> dbox" where
  "dbox_layout per_dbox i =
     \<lparr> dbox_id = i,
       data_drives = [i * per_dbox ..< i * per_dbox + 38],
       local_groups =
         [\<lparr> g_data_drives = [i * per_dbox ..< i * per_dbox + 13],
             g_parity_drive = Some (i * per_dbox + 38) \<rparr>,
          \<lparr> g_data_drives = [i * per_dbox + 13 ..< i * per_dbox + 26],
             g_parity_drive = Some (i * per_dbox + 39) \<rparr>,
          \<lparr> g_data_drives = [i * per_dbox + 26 ..< i * per_dbox + 38],
             g_parity_drive = Some (i * per_dbox + 40) \<rparr>],
       local_parity_drives = [i * per_dbox + 38 ..< i * per_dbox + 41],
       global_parity_drive = i * per_dbox + 41,
       spare_drives = [i * per_dbox + 42 ..< i * per_dbox + 44],
       all_drives = [i * per_dbox ..< i * per_dbox + 44] \<rparr>"

text \<open>The fresh pool after the listed drives have been toggled offline.\<close>

definition offline_at :: "nat list \<Rightarrow> storage" where
  "offline_at ds = init_storage\<lparr>drive_status := fold (\<lambda>d st. st[d := False]) ds (drive_status init_storage)\<rparr>"

text \<open>
  The drive IDs that the integrity check looks up are in range: every drive of a Dbox has a
  status, and the local-parity drives and the group members of a Dbox are drives of that Dbox.
\<close>

definition wf_status :: "storage \<Rightarrow> bool" where
  "wf_status s \<longleftrightarrow>
     (\<forall>b \<in> set (dboxes s).
        (\<forall>d \<in> set (all_drives b). d < length (drive_status s)) \<and>
        set (local_parity_drives b) \<subseteq> set (all_drives b) \<and>
        (\<forall>g \<in> set (local_groups b). set (g_data_drives g) \<subseteq> set (all_drives b)))"

text \<open>The two tests of the integrity check on a Dbox, in the later file and in v2.1.\<close>

definition flagged :: "storage \<Rightarrow> dbox \<Rightarrow> bool" where
  "flagged s b \<longleftrightarrow> 2 < max_group_failures s b"

definition flagged_v21 :: "storage \<Rightarrow> dbox \<Rightarrow> bool" where
  "flagged_v21 s b \<longleftrightarrow>
     2 < max_group_failures s b \<or>
     (max_group_failures s b = 2 \<and> (\<exists>d \<in> set (local_parity_drives b). \<not> drive_status s ! d))"

text \<open>The pool switched to HA mode after the listed drives have been toggled offline.\<close>

definition ha_pool :: "nat list \<Rightarrow> storage" where
  "ha_pool ds = (offline_at ds)\<lparr>ha_mode := True\<rparr>"

text \<open>Every online drive of \<open>ds\<close> holds chunk \<open>i\<close> in full.\<close>

definition full_chunks :: "storage \<Rightarrow> nat list \<Rightarrow> nat \<Rightarrow> bool" where
  "full_chunks s ds i \<longleftrightarrow>
     (\<forall>d \<in> set ds. drive_status s ! d \<longrightarrow> (i + 1) * chunk_size s \<le> length (drives s d))"


text \<open>
  The fresh pool in which drive 0 holds the byte \<open>c\<close> and drive 1 the byte 200 throughout, with
  drive 0 toggled offline.
\<close>

definition degraded_pool :: "byte \<Rightarrow> storage" where
  "degraded_pool c =
     init_storage\<lparr>drives := (drives init_storage)
                      (0 := replicate (1024 * 1024) c, 1 := replicate (1024 * 1024) 200),
                  drive_status := (drive_status init_storage)[0 := False]\<rparr>"

text \<open>
  The drives other than the failed one whose chunk \<open>k\<close> enters the rebuild: online data drives of
  the group whose read returned a full chunk.
\<close>

definition rebuild_sources :: "storage \<Rightarrow> nat \<Rightarrow> nat list \<Rightarrow> nat \<Rightarrow> nat list" where
  "rebuild_sources s failed_drive ds k =
     filter (\<lambda>drive_id. drive_id \<noteq> failed_drive \<and> drive_status s ! drive_id
               \<and> length (read_chunk s drive_id k) = chunk_size s) ds"

(*DEFS-END*)

section \<open>Properties\<close>

subsection \<open>The capacity check of \<^verbatim>\<open>write_files\<close>\<close>

lemma write_data_normal_mode_msg:
  "write_data_normal_mode s d \<noteq> Inr ((False, FilesTooLarge n a), s')"
  by (simp add: write_data_normal_mode_def Let_def split: sum.splits)

lemma write_data_ha_mode_msg:
  "write_data_ha_mode s d \<noteq> Some (Inr ((False, FilesTooLarge n a), s'))"
  by (auto simp add: write_data_ha_mode_def Let_def split: option.splits sum.splits prod.splits)

lemma write_files_unfold:
  assumes "input_files \<noteq> []" and "combine_files input_files [] = Inr combined"
  shows "write_files s input_files =
     (if fst (get_storage_stats s) - int (length combined) < int (length combined)
      then Some (Inr ((False, FilesTooLarge (length combined)
                               (fst (get_storage_stats s) - int (length combined))),
                      store_metadata s combined input_files))
      else if ha_mode s
      then write_data_ha_mode (store_metadata s combined input_files)
             (ljust combined (((length combined + chunk_size s - 1) div chunk_size s) * chunk_size s))
      else Some (write_data_normal_mode (store_metadata s combined input_files)
             (ljust combined (((length combined + chunk_size s - 1) div chunk_size s) * chunk_size s))))"
  using assms
  by (simp add: write_files_def Let_def stored_name_def store_metadata_def
        get_storage_stats_def get_all_data_drives_def)

text \<open>
  Claim C9. \<^verbatim>\<open>write_files\<close> stores the combined buffer and its name in the pool before it
  checks the capacity. A call is rejected for insufficient capacity exactly when the input list
  is not empty, the files combine to a buffer, and the length of the buffer exceeds the
  available capacity, which is the total capacity minus the length of that same buffer: the
  new size is already subtracted. The pool that the rejected call leaves behind is the pool it
  was given with \<^verbatim>\<open>stored_file_data\<close> and \<^verbatim>\<open>stored_file_name\<close> replaced; the drive contents and
  every other field are unchanged.
\<close>

theorem write_files_capacity_rejection:
  "write_files s input_files = Some (Inr ((False, FilesTooLarge n a), s')) \<longleftrightarrow>
     input_files \<noteq> [] \<and>
     (\<exists>combined. combine_files input_files [] = Inr combined \<and>
        n = length combined \<and>
        a = fst (get_storage_stats s) - int (length combined) \<and>
        a < int (length combined) \<and>
        s' = s\<lparr>stored_file_data := Some combined,
               stored_file_name := Some (stored_name input_files)\<rparr>)"
proof (cases "input_files = []")
  case True
  then show ?thesis by (simp add: write_files_def)
next
  case ne: False
  show ?thesis
  proof (cases "combine_files input_files []")
    case (Inl e)
    with ne show ?thesis by (simp add: write_files_def)
  next
    case (Inr combined)
    note u = write_files_unfold [OF ne Inr, of s]
    show ?thesis
    proof (cases "fst (get_storage_stats s) - int (length combined) < int (length combined)")
      case True
      with ne Inr u show ?thesis by (auto simp add: store_metadata_def)
    next
      case False
      have "write_files s input_files \<noteq> Some (Inr ((False, FilesTooLarge n a), s'))"
      proof (cases "ha_mode s")
        case True
        with u False show ?thesis by (simp add: write_data_ha_mode_msg)
      next
        case nha: False
        with u False show ?thesis
          by (simp add: write_data_normal_mode_msg)
      qed
      with Inr False show ?thesis by auto
    qed
  qed
qed

lemma length_data_drives_configure:
  "length (concat (map data_drives (configure_dboxes n p))) = 38 * n"
  by (simp add: configure_dboxes_def length_concat comp_def Let_def sum_list_triv)

lemma total_capacity_init: "fst (get_storage_stats init_storage) = 438304768"
  by (simp add: get_storage_stats_def get_all_data_drives_def Let_def init_storage_def
        length_data_drives_configure)

text \<open>
  The fresh pool has 418 data drives of 1 MiB. A file of 300000000 bytes named \<^verbatim>\<open>big\<close> combines
  to 300000015 bytes, more than half of the capacity, and is rejected with the metadata stored.
\<close>

theorem write_files_capacity_rejection_witness:
  "\<exists>c. write_files init_storage [(''big'', replicate 300000000 0)] =
         Some (Inr ((False, FilesTooLarge 300000015 138304753),
                    init_storage\<lparr>stored_file_data := Some c, stored_file_name := Some ''big''\<rparr>))
       \<and> length c = 300000015"
proof -
  let ?c = "le_bytes 4 (length ''big'') @ map of_char ''big'' @ le_bytes 8 300000000
              @ replicate 300000000 (0::byte)"
  have c: "combine_files [(''big'', replicate 300000000 0)] [] = Inr ?c"
    by (simp add: basename_def pack_I_def pack_Q_def)
  have l: "length ?c = 300000015"
    by (simp add: le_bytes_def)
  have n: "stored_name [(''big'', replicate 300000000 (0::byte))] = ''big''"
    by (simp add: stored_name_def)
  have "write_files init_storage [(''big'', replicate 300000000 0)] =
         Some (Inr ((False, FilesTooLarge 300000015 138304753),
                    init_storage\<lparr>stored_file_data := Some ?c, stored_file_name := Some ''big''\<rparr>))"
    unfolding write_files_capacity_rejection
    by (intro conjI exI [of _ ?c]) (simp_all only: c l n total_capacity_init, simp_all)
  with l show ?thesis by blast
qed

subsection \<open>Bytes and weights\<close>









subsection \<open>The XOR fold\<close>







text \<open>On chunks of the right length the parity functions do not raise.\<close>

lemma xor_chunks_full:
  "\<forall>c \<in> set cs. length c = n \<Longrightarrow> length p = n \<Longrightarrow>
   xor_chunks cs p = Inr (fold (\<lambda>c p. xor2 p c) cs p)"
  by (induction cs arbitrary: p) (simp_all add: xor_into_def xor2_def)

lemma calculate_parity_full:
  "\<forall>c \<in> set cs. length c = n \<Longrightarrow> calculate_parity n cs = Inr (xor_fold n cs)"
  using xor_chunks_full [of cs n "replicate n 0"]
  by (simp add: calculate_parity_def xor_fold_def)


subsection \<open>Reading chunks\<close>

lemma length_read_at: "length (read_at c off n) = min n (length c - off)"
  by (simp add: read_at_def)

lemma read_at_full: "off + n \<le> length c \<Longrightarrow> length (read_at c off n) = n"
  by (simp add: read_at_def)






subsection \<open>Global parity\<close>























subsection \<open>The layout\<close>

lemma upt_3: "[0 ..< 3] = [0, 1, 2]"
  by (simp add: upt_rec)

lemma nth_upt_3: "[b + 38 ..< b + 41] = [b + 38, b + 39, b + 40]"
  by (simp add: upt_rec)

lemma slice_upt: "a \<le> b \<Longrightarrow> m + b \<le> n \<Longrightarrow> slice [m ..< n] a b = [m + a ..< m + b]"
  by (simp add: slice_def take_upt)

lemma configure_dboxes_layout: "configure_dboxes n p = map (dbox_layout p) [0 ..< n]"
  unfolding configure_dboxes_def
  by (rule map_cong [OF refl])
     (simp add: dbox_layout_def Let_def upt_3 nth_upt_3 slice_upt add.assoc)

lemma upt_0_numeral: "[0 ..< numeral n] = 0 # [1 ..< numeral n]"
  by (simp add: upt_rec)

lemma upt_Suc_0_numeral:
  "[Suc 0 ..< numeral n] = (if Suc 0 < numeral n then Suc 0 # [2 ..< numeral n] else [])"
  using upt_rec [of "Suc 0" "numeral n"] by (simp add: numeral_2_eq_2)

lemmas upt_eval = upt_0_numeral upt_Suc_0_numeral

subsection \<open>The integrity check\<close>

lemma wf_status_layout:
  assumes "dboxes s = map (dbox_layout 44) [0 ..< n]" and "length (drive_status s) = n * 44"
  shows "wf_status s"
proof -
  have r: "\<And>i d. i < n \<Longrightarrow> d < i * 44 + 44 \<Longrightarrow> d < n * 44"
  proof -
    fix i d :: nat assume "i < n" "d < i * 44 + 44"
    then have "(i + 1) * 44 \<le> n * 44" by (intro mult_le_mono1) simp
    with \<open>d < i * 44 + 44\<close> show "d < n * 44" by simp
  qed
  show ?thesis
    unfolding wf_status_def assms
    by (auto simp add: dbox_layout_def r)
qed

lemma fold_max_less:
  "k < fold (\<lambda>g m. max m (f g)) gs (m0::nat) \<longleftrightarrow> k < m0 \<or> (\<exists>g \<in> set gs. k < f g)"
  by (induction gs arbitrary: m0) auto

lemma max_group_failures_less:
  "k < max_group_failures s b \<longleftrightarrow> (\<exists>g \<in> set (local_groups b). k < group_failures s g)"
  by (simp add: max_group_failures_def fold_max_less)

lemma scan_dboxes_eq:
  "scan_dboxes s offline bs acc =
     acc @ map dbox_id (filter (\<lambda>b. filter (\<lambda>d. d \<in> set (all_drives b)) offline \<noteq> []
                                   \<and> 2 < max_group_failures s b) bs)"
  by (induction bs arbitrary: acc) (auto simp: Let_def)

lemma scan_dnodes_v21_eq:
  "scan_dnodes_v21 s offline bs acc =
     acc @ map dbox_id (filter (\<lambda>b. filter (\<lambda>d. d \<in> set (all_drives b)) offline \<noteq> []
                 \<and> (2 < max_group_failures s b \<or>
                    (max_group_failures s b = 2 \<and>
                     filter (\<lambda>d. d \<in> set (local_parity_drives b))
                       (filter (\<lambda>d. d \<in> set (all_drives b)) offline) \<noteq> []))) bs)"
  by (induction bs arbitrary: acc) (auto simp: Let_def)

lemma set_offline_drives:
  "set (offline_drives s) = {i. i < length (drive_status s) \<and> \<not> drive_status s ! i}"
  by (auto simp: offline_drives_def)

lemma group_failure_offline:
  assumes "0 < group_failures s g"
  shows "\<exists>d \<in> set (g_data_drives g). \<not> drive_status s ! d"
proof -
  from assms have "filter (\<lambda>d. \<not> drive_status s ! d) (g_data_drives g) \<noteq> []"
    by (auto simp: group_failures_def)
  then show ?thesis by (auto simp: filter_empty_conv)
qed

lemma dbox_failures_nonempty:
  assumes wf: "wf_status s" and b: "b \<in> set (dboxes s)" and m: "0 < max_group_failures s b"
  shows "filter (\<lambda>d. d \<in> set (all_drives b)) (offline_drives s) \<noteq> []"
proof -
  from m obtain g where g: "g \<in> set (local_groups b)" "0 < group_failures s g"
    by (auto simp: max_group_failures_less)
  then obtain d where d: "d \<in> set (g_data_drives g)" "\<not> drive_status s ! d"
    using group_failure_offline by blast
  from wf b g(1) have sub: "set (g_data_drives g) \<subseteq> set (all_drives b)"
    unfolding wf_status_def by blast
  from wf b have len: "\<forall>d \<in> set (all_drives b). d < length (drive_status s)"
    unfolding wf_status_def by blast
  from sub d(1) have "d \<in> set (all_drives b)" by blast
  with len have "d \<in> set (all_drives b)" "d < length (drive_status s)" by blast+
  with d have "d \<in> set (offline_drives s)" by (simp add: set_offline_drives)
  with \<open>d \<in> set (all_drives b)\<close> show ?thesis by (auto simp: filter_empty_conv)
qed

lemma parity_failures_iff:
  assumes wf: "wf_status s" and b: "b \<in> set (dboxes s)"
  shows "filter (\<lambda>d. d \<in> set (local_parity_drives b))
           (filter (\<lambda>d. d \<in> set (all_drives b)) (offline_drives s)) \<noteq> []
         \<longleftrightarrow> (\<exists>d \<in> set (local_parity_drives b). \<not> drive_status s ! d)"
proof -
  from wf b have sub: "set (local_parity_drives b) \<subseteq> set (all_drives b)"
    unfolding wf_status_def by blast
  from wf b have len: "\<forall>d \<in> set (all_drives b). d < length (drive_status s)"
    unfolding wf_status_def by blast
  show ?thesis
    using sub len by (auto simp: filter_empty_conv set_offline_drives)
qed

lemma scan_dboxes_wf:
  assumes wf: "wf_status s"
  shows "scan_dboxes s (offline_drives s) (dboxes s) [] =
           map dbox_id (filter (flagged s) (dboxes s))"
proof -
  have "filter (\<lambda>b. filter (\<lambda>d. d \<in> set (all_drives b)) (offline_drives s) \<noteq> []
                                   \<and> 2 < max_group_failures s b) (dboxes s)
        = filter (flagged s) (dboxes s)"
  proof (rule filter_cong [OF refl])
    fix b assume b: "b \<in> set (dboxes s)"
    show "(filter (\<lambda>d. d \<in> set (all_drives b)) (offline_drives s) \<noteq> []
           \<and> 2 < max_group_failures s b) = flagged s b"
    proof (cases "2 < max_group_failures s b")
      case True
      then have "0 < max_group_failures s b" by simp
      from dbox_failures_nonempty [OF wf b this] True show ?thesis
        by (simp add: flagged_def)
    next
      case False
      then show ?thesis by (simp add: flagged_def)
    qed
  qed
  then show ?thesis by (simp add: scan_dboxes_eq)
qed

lemma scan_dnodes_v21_wf:
  assumes wf: "wf_status s"
  shows "scan_dnodes_v21 s (offline_drives s) (dboxes s) [] =
           map dbox_id (filter (flagged_v21 s) (dboxes s))"
proof -
  have "filter (\<lambda>b. filter (\<lambda>d. d \<in> set (all_drives b)) (offline_drives s) \<noteq> []
                 \<and> (2 < max_group_failures s b \<or>
                    (max_group_failures s b = 2 \<and>
                     filter (\<lambda>d. d \<in> set (local_parity_drives b))
                       (filter (\<lambda>d. d \<in> set (all_drives b)) (offline_drives s)) \<noteq> []))) (dboxes s)
        = filter (flagged_v21 s) (dboxes s)"
  proof (rule filter_cong [OF refl])
    fix b assume b: "b \<in> set (dboxes s)"
    show "(filter (\<lambda>d. d \<in> set (all_drives b)) (offline_drives s) \<noteq> []
                 \<and> (2 < max_group_failures s b \<or>
                    (max_group_failures s b = 2 \<and>
                     filter (\<lambda>d. d \<in> set (local_parity_drives b))
                       (filter (\<lambda>d. d \<in> set (all_drives b)) (offline_drives s)) \<noteq> [])))
          = flagged_v21 s b"
    proof (cases "0 < max_group_failures s b")
      case True
      from dbox_failures_nonempty [OF wf b True] show ?thesis
        unfolding parity_failures_iff [OF wf b] flagged_v21_def by simp
    next
      case False
      then show ?thesis by (simp add: flagged_v21_def)
    qed
  qed
  then show ?thesis by (simp add: scan_dnodes_v21_eq)
qed

lemma scan_dboxes_no_offline: "scan_dboxes s [] bs [] = []"
  by (simp add: scan_dboxes_eq)

lemma scan_dnodes_v21_no_offline: "scan_dnodes_v21 s [] bs [] = []"
  by (simp add: scan_dnodes_v21_eq)

lemma check_data_integrity_wf:
  assumes wf: "wf_status s"
  shows "snd (snd (fst (check_data_integrity s))) = map dbox_id (filter (flagged s) (dboxes s))"
    and "fst (fst (check_data_integrity s)) \<longleftrightarrow> filter (flagged s) (dboxes s) = []"
proof -
  have e: "offline_drives s = [] \<Longrightarrow> filter (flagged s) (dboxes s) = []"
    using scan_dboxes_wf [OF wf] scan_dboxes_no_offline [of s "dboxes s"] by simp
  show "snd (snd (fst (check_data_integrity s))) = map dbox_id (filter (flagged s) (dboxes s))"
    using e by (simp add: check_data_integrity_def Let_def scan_dboxes_wf [OF wf])
  show "fst (fst (check_data_integrity s)) \<longleftrightarrow> filter (flagged s) (dboxes s) = []"
    using e by (simp add: check_data_integrity_def Let_def scan_dboxes_wf [OF wf])
qed

lemma check_data_integrity_v21_wf:
  assumes wf: "wf_status s"
  shows "snd (snd (fst (check_data_integrity_v21 s)))
           = map dbox_id (filter (flagged_v21 s) (dboxes s))"
    and "fst (fst (check_data_integrity_v21 s)) \<longleftrightarrow> filter (flagged_v21 s) (dboxes s) = []"
proof -
  have e: "offline_drives s = [] \<Longrightarrow> filter (flagged_v21 s) (dboxes s) = []"
    using scan_dnodes_v21_wf [OF wf] scan_dnodes_v21_no_offline [of s "dboxes s"] by simp
  show "snd (snd (fst (check_data_integrity_v21 s)))
           = map dbox_id (filter (flagged_v21 s) (dboxes s))"
    using e by (simp add: check_data_integrity_v21_def Let_def scan_dnodes_v21_wf [OF wf])
  show "fst (fst (check_data_integrity_v21 s)) \<longleftrightarrow> filter (flagged_v21 s) (dboxes s) = []"
    using e by (simp add: check_data_integrity_v21_def Let_def scan_dnodes_v21_wf [OF wf])
qed

lemma check_data_integrity_pure: "snd (check_data_integrity s) = s"
  by (simp add: check_data_integrity_def Let_def)

lemma check_data_integrity_v21_pure: "snd (check_data_integrity_v21 s) = s"
  by (simp add: check_data_integrity_v21_def Let_def)

text \<open>
  Claim C4, as the two files have it. On a pool whose drive IDs are in range, the integrity check
  of \<^verbatim>\<open>VDSimm2-5-26.py\<close> lists exactly the Dboxes whose maximum number of offline data drives
  in one local group exceeds 2; the check of \<^verbatim>\<open>VDATASIM-v2.1.py\<close> lists those and also the Dnodes
  where that maximum is exactly 2 and a local-parity drive of the Dnode is offline. In both,
  the first component of the result is true exactly when the list is empty, and the pool is
  left as it was.
\<close>

theorem integrity_check_flags:
  assumes "wf_status s"
  shows "snd (snd (fst (check_data_integrity s)))
           = map dbox_id (filter (\<lambda>b. 2 < max_group_failures s b) (dboxes s))
       \<and> (fst (fst (check_data_integrity s))
            \<longleftrightarrow> snd (snd (fst (check_data_integrity s))) = [])
       \<and> snd (check_data_integrity s) = s
       \<and> snd (snd (fst (check_data_integrity_v21 s)))
           = map dbox_id (filter (\<lambda>b. 2 < max_group_failures s b \<or>
                 (max_group_failures s b = 2 \<and>
                  (\<exists>d \<in> set (local_parity_drives b). \<not> drive_status s ! d))) (dboxes s))
       \<and> (fst (fst (check_data_integrity_v21 s))
            \<longleftrightarrow> snd (snd (fst (check_data_integrity_v21 s))) = [])
       \<and> snd (check_data_integrity_v21 s) = s"
proof -
  have f: "flagged s = (\<lambda>b. 2 < max_group_failures s b)"
    by (rule ext) (simp add: flagged_def)
  have g: "flagged_v21 s = (\<lambda>b. 2 < max_group_failures s b \<or>
                 (max_group_failures s b = 2 \<and>
                  (\<exists>d \<in> set (local_parity_drives b). \<not> drive_status s ! d)))"
    by (rule ext) (simp add: flagged_v21_def)
  show ?thesis
    using check_data_integrity_wf [OF assms] check_data_integrity_v21_wf [OF assms]
    by (simp add: check_data_integrity_pure check_data_integrity_v21_pure f g)
qed

lemma dboxes_offline_at: "dboxes (offline_at ds) = map (dbox_layout 44) [0 ..< 11]"
  by (simp add: offline_at_def init_storage_def configure_dboxes_layout)

lemma length_status_offline_at: "length (drive_status (offline_at ds)) = 484"
proof -
  have "\<And>st. length (fold (\<lambda>d st. st[d := False]) ds st) = length st"
    by (induction ds) simp_all
  then show ?thesis by (simp add: offline_at_def init_storage_def)
qed

lemma wf_status_offline_at: "wf_status (offline_at ds)"
  by (rule wf_status_layout [of _ 11]) (simp_all add: dboxes_offline_at length_status_offline_at)

lemma status_offline_at_3:
  "drive_status (offline_at [a, b, c]) = (replicate 484 True)[a := False, b := False, c := False]"
  by (simp add: offline_at_def init_storage_def)

lemmas integrity_eval =
  dboxes_offline_at filter_map comp_def max_group_failures_def group_failures_def
  status_offline_at_3 dbox_layout_def upt_eval flagged_def flagged_v21_def

text \<open>
  Three data drives of the first group of Dbox 0 offline: both checks list Dbox 0 and report
  that the data is not recoverable.
\<close>

theorem integrity_check_flags_witness:
  "wf_status (offline_at [0, 1, 2])
   \<and> snd (snd (fst (check_data_integrity (offline_at [0, 1, 2])))) = [0]
   \<and> \<not> fst (fst (check_data_integrity (offline_at [0, 1, 2])))
   \<and> snd (snd (fst (check_data_integrity_v21 (offline_at [0, 1, 2])))) = [0]
   \<and> \<not> fst (fst (check_data_integrity_v21 (offline_at [0, 1, 2])))"
proof -
  have wf: "wf_status (offline_at [0, 1, 2])" by (rule wf_status_offline_at)
  have a: "map dbox_id (filter (\<lambda>b. 2 < max_group_failures (offline_at [0, 1, 2]) b)
             (dboxes (offline_at [0, 1, 2]))) = [0]"
    by (simp add: integrity_eval)
  have b: "map dbox_id (filter (\<lambda>b. 2 < max_group_failures (offline_at [0, 1, 2]) b \<or>
              (max_group_failures (offline_at [0, 1, 2]) b = 2 \<and>
               (\<exists>d \<in> set (local_parity_drives b). \<not> drive_status (offline_at [0, 1, 2]) ! d)))
             (dboxes (offline_at [0, 1, 2]))) = [0]"
    by (simp add: integrity_eval)
  show ?thesis
    using integrity_check_flags [OF wf] wf by (simp only: a b) simp
qed

text \<open>
  Two data drives of the first group of Dbox 0 and the local-parity drive 38 offline: no group
  has more than two offline data drives, the check of \<^verbatim>\<open>VDSimm2-5-26.py\<close> lists nothing, and the
  check of \<^verbatim>\<open>VDATASIM-v2.1.py\<close> lists Dnode 0 and reports that the data is not recoverable.
\<close>

theorem integrity_check_v21_counterexample:
  "snd (snd (fst (check_data_integrity_v21 (offline_at [0, 1, 38])))) = [0]
   \<and> \<not> fst (fst (check_data_integrity_v21 (offline_at [0, 1, 38])))
   \<and> \<not> (\<exists>b \<in> set (dboxes (offline_at [0, 1, 38])). 2 < max_group_failures (offline_at [0, 1, 38]) b)
   \<and> snd (snd (fst (check_data_integrity (offline_at [0, 1, 38])))) = []"
proof -
  have wf: "wf_status (offline_at [0, 1, 38])" by (rule wf_status_offline_at)
  have a: "map dbox_id (filter (flagged_v21 (offline_at [0, 1, 38])) (dboxes (offline_at [0, 1, 38]))) = [0]"
    by (simp add: integrity_eval)
  have b: "filter (flagged (offline_at [0, 1, 38])) (dboxes (offline_at [0, 1, 38])) = []"
    by (simp add: integrity_eval)
  have c: "\<not> (\<exists>b \<in> set (dboxes (offline_at [0, 1, 38])). 2 < max_group_failures (offline_at [0, 1, 38]) b)"
    using b by (simp add: filter_empty_conv flagged_def)
  have a': "filter (flagged_v21 (offline_at [0, 1, 38])) (dboxes (offline_at [0, 1, 38])) \<noteq> []"
    using a by auto
  show ?thesis
    using check_data_integrity_v21_wf [OF wf] check_data_integrity_wf [OF wf] c a'
    by (simp only: a b) simp
qed

subsection \<open>The selection of an HA-mode write\<close>

lemma dboxes_ha_pool: "dboxes (ha_pool ds) = map (dbox_layout 44) [0 ..< 11]"
  by (simp add: ha_pool_def dboxes_offline_at)

lemma status_ha_pool:
  "drive_status (ha_pool ds) = fold (\<lambda>d st. st[d := False]) ds (replicate 484 True)"
  by (simp add: ha_pool_def offline_at_def init_storage_def)

lemma write_data_ha_mode_short:
  "length (ha_select s) < 18 \<Longrightarrow>
   write_data_ha_mode s data = Some (Inr ((False, HARequires18 (length (ha_select s))), s))"
  by (simp add: write_data_ha_mode_def Let_def)

text \<open>
  Claim C6 at a pool where the code departs from it. Drive 0 and the first two data drives of
  Dboxes 9 and 10 are offline. Each of the first nine Dboxes has at least 37 online data drives,
  and the first two online data drives of Dbox 0 are 1 and 2; the selection takes only drive 1
  from Dbox 0, has 17 drives, and the write fails with the message that HA mode requires 18.
\<close>

theorem ha_select_only_first_two:
  "ha_select (ha_pool [0, 396, 397, 440, 441])
     = [1, 44, 45, 88, 89, 132, 133, 176, 177, 220, 221, 264, 265, 308, 309, 352, 353]
   \<and> map (\<lambda>b. length (filter (\<lambda>d. drive_status (ha_pool [0, 396, 397, 440, 441]) ! d)
                            (data_drives b)))
          (take 9 (dboxes (ha_pool [0, 396, 397, 440, 441])))
     = [37, 38, 38, 38, 38, 38, 38, 38, 38]
   \<and> take 2 (filter (\<lambda>d. drive_status (ha_pool [0, 396, 397, 440, 441]) ! d)
                (data_drives (dboxes (ha_pool [0, 396, 397, 440, 441]) ! 0))) = [1, 2]
   \<and> (\<forall>data. write_data_ha_mode (ha_pool [0, 396, 397, 440, 441]) data
         = Some (Inr ((False, HARequires18 17), ha_pool [0, 396, 397, 440, 441])))"
proof -
  let ?p = "ha_pool [0, 396, 397, 440, 441]"
  have a: "ha_select ?p
     = [1, 44, 45, 88, 89, 132, 133, 176, 177, 220, 221, 264, 265, 308, 309, 352, 353]"
    by (simp add: ha_select_def dboxes_ha_pool status_ha_pool dbox_layout_def upt_eval)
  have b: "map (\<lambda>b. length (filter (\<lambda>d. drive_status ?p ! d) (data_drives b)))
          (take 9 (dboxes ?p)) = [37, 38, 38, 38, 38, 38, 38, 38, 38]"
    by (simp add: dboxes_ha_pool status_ha_pool dbox_layout_def upt_eval)
  have c: "take 2 (filter (\<lambda>d. drive_status ?p ! d) (data_drives (dboxes ?p ! 0))) = [1, 2]"
    by (simp add: dboxes_ha_pool status_ha_pool dbox_layout_def upt_eval)
  have "length (ha_select ?p) = 17" by (simp only: a) simp
  then have d: "\<forall>data. write_data_ha_mode ?p data = Some (Inr ((False, HARequires18 17), ?p))"
    using write_data_ha_mode_short [of ?p] by simp
  from a b c d show ?thesis by blast
qed

subsection \<open>Local parity\<close>






subsection \<open>Offline drives take no part in a parity\<close>

lemma length_read_chunk_full:
  "(i + 1) * chunk_size s \<le> length (drives s d) \<Longrightarrow> length (read_chunk s d i) = chunk_size s"
  by (simp add: read_chunk_def read_at_def)








lemma dboxes_degraded_pool: "dboxes (degraded_pool c) = map (dbox_layout 44) [0 ..< 11]"
  by (simp add: degraded_pool_def init_storage_def configure_dboxes_layout)

lemma status_degraded_pool:
  "d < 484 \<Longrightarrow> drive_status (degraded_pool c) ! d \<longleftrightarrow> d \<noteq> 0"
  by (simp add: degraded_pool_def init_storage_def nth_list_update)



lemma full_chunks_degraded_pool:
  assumes "b \<le> 484"
  shows "full_chunks (degraded_pool c) [0 ..< b] 0"
  unfolding full_chunks_def
  using assms by (auto simp add: degraded_pool_def init_storage_def)




subsection \<open>Rebuilding a data drive\<close>

lemma find_group_holds: "find_group Q gs = Some g \<Longrightarrow> Q g"
  by (induction gs) (auto split: if_splits)

lemma rebuild_chunk_full:
  assumes "length (read_chunk s P k) = chunk_size s"
  shows "rebuild_chunk s P D ds k =
           Inr (xor_fold (chunk_size s)
                  (read_chunk s P k # map (\<lambda>d. read_chunk s d k) (rebuild_sources s D ds k)),
                P # rebuild_sources s D ds k)"
proof -
  have "\<forall>c \<in> set (read_chunk s P k # map (\<lambda>d. read_chunk s d k) (rebuild_sources s D ds k)).
          length c = chunk_size s"
    using assms by (auto simp add: rebuild_sources_def)
  then show ?thesis
    unfolding rebuild_chunk_def Let_def rebuild_sources_def [symmetric]
    by (simp only: calculate_parity_full) simp
qed

lemma rebuild_loop_full:
  assumes "\<forall>k \<in> set idxs. length (read_chunk s P k) = chunk_size s"
  shows "rebuild_loop s P D ds idxs acc rd =
           Inr (acc @ concat (map (\<lambda>k. xor_fold (chunk_size s)
                  (read_chunk s P k # map (\<lambda>d. read_chunk s d k) (rebuild_sources s D ds k))) idxs),
                rd @ concat (map (\<lambda>k. P # rebuild_sources s D ds k) idxs))"
  using assms
  by (induction idxs arbitrary: acc rd) (simp_all add: rebuild_chunk_full)

lemma parity_chunks_full:
  assumes "drive_size s \<le> length (drives s P)" and "k < drive_size s div chunk_size s"
  shows "length (read_chunk s P k) = chunk_size s"
proof -
  have "(k + 1) * chunk_size s \<le> (drive_size s div chunk_size s) * chunk_size s"
    using assms(2) by (intro mult_le_mono1) simp
  also have "\<dots> \<le> drive_size s" by simp
  finally have "(k + 1) * chunk_size s \<le> length (drives s P)" using assms(1) by simp
  then show ?thesis by (rule length_read_chunk_full)
qed

lemma rebuild_data_drive_result:
  assumes "g_parity_drive grp = Some P" and "drive_size s \<le> length (drives s P)"
  shows "rebuild_data_drive s D grp =
           Inr (set (concat (map (\<lambda>k. P # rebuild_sources s D (g_data_drives grp) k)
                                 [0 ..< drive_size s div chunk_size s])),
                write_file s D
                  (concat (map (\<lambda>k. xor_fold (chunk_size s)
                     (read_chunk s P k #
                      map (\<lambda>d. read_chunk s d k) (rebuild_sources s D (g_data_drives grp) k)))
                     [0 ..< drive_size s div chunk_size s])))"
proof -
  have "\<forall>k \<in> set [0 ..< drive_size s div chunk_size s]. length (read_chunk s P k) = chunk_size s"
    using parity_chunks_full [OF assms(2)] by simp
  then show ?thesis
    using assms(1)
    by (simp add: rebuild_data_drive_def Let_def rebuild_loop_full del: set_concat)
qed

lemma rebuild_sources_set:
  assumes "0 < n" and "full_chunks s ds 0"
  shows "set (concat (map (\<lambda>k. P # rebuild_sources s D ds k) [0 ..< n]))
         = insert P (set (filter (\<lambda>d. d \<noteq> D \<and> drive_status s ! d) ds))"
proof -
  have zero: "rebuild_sources s D ds 0 = filter (\<lambda>d. d \<noteq> D \<and> drive_status s ! d) ds"
    unfolding rebuild_sources_def
    by (rule filter_cong [OF refl])
       (use assms(2) in \<open>auto simp add: full_chunks_def length_read_chunk_full\<close>)
  have sub: "\<And>k. set (rebuild_sources s D ds k)
               \<subseteq> set (filter (\<lambda>d. d \<noteq> D \<and> drive_status s ! d) ds)"
    by (auto simp add: rebuild_sources_def)
  have "set (concat (map (\<lambda>k. P # rebuild_sources s D ds k) [0 ..< n]))
        = (\<Union>k \<in> {0 ..< n}. insert P (set (rebuild_sources s D ds k)))"
    by simp
  also have "\<dots> = insert P (set (filter (\<lambda>d. d \<noteq> D \<and> drive_status s ! d) ds))"
  proof (rule equalityI)
    show "(\<Union>k \<in> {0 ..< n}. insert P (set (rebuild_sources s D ds k)))
          \<subseteq> insert P (set (filter (\<lambda>d. d \<noteq> D \<and> drive_status s ! d) ds))"
      using sub by blast
    have "0 \<in> {0 ..< n}" using assms(1) by simp
    then have "insert P (set (rebuild_sources s D ds 0))
          \<subseteq> (\<Union>k \<in> {0 ..< n}. insert P (set (rebuild_sources s D ds k)))"
      by blast
    then show "insert P (set (filter (\<lambda>d. d \<noteq> D \<and> drive_status s ! d) ds))
          \<subseteq> (\<Union>k \<in> {0 ..< n}. insert P (set (rebuild_sources s D ds k)))"
      by (simp only: zero)
  qed
  finally show ?thesis .
qed

text \<open>
  Claim C10. Let \<open>D\<close> be an offline data drive whose Dbox lists it in the local group \<open>grp\<close>, let
  the group have the parity drive \<open>P\<close>, which is not one of its data drives, let a drive hold
  at least one chunk, let the file of \<open>P\<close> have the size of a drive and let every online data
  drive of the group hold its first chunk in full. Then \<^verbatim>\<open>rebuild_drives\<close> called for \<open>D\<close> alone
  returns, as the drives read, exactly \<open>P\<close> and the online data drives of the group other than
  \<open>D\<close>; \<open>D\<close> is not among them.
\<close>

theorem rebuild_drives_reads:
  assumes "D < length (drive_status s)" and "\<not> drive_status s ! D"
      and "get_dbox_for_drive s D < length (dboxes s)"
      and "get_drive_type s D = Data"
      and "find_group (\<lambda>g. D \<in> set (g_data_drives g))
             (local_groups (dboxes s ! get_dbox_for_drive s D)) = Some grp"
      and "g_parity_drive grp = Some P" and "P \<notin> set (g_data_drives grp)"
      and "0 < drive_size s div chunk_size s"
      and "drive_size s \<le> length (drives s P)"
      and "full_chunks s (g_data_drives grp) 0"
  shows "(\<exists>info s'. rebuild_drives s [D] bring_online =
            Inr (insert P (set (filter (\<lambda>d. d \<noteq> D \<and> drive_status s ! d) (g_data_drives grp))),
                 info, s'))
       \<and> D \<notin> insert P (set (filter (\<lambda>d. d \<noteq> D \<and> drive_status s ! d) (g_data_drives grp)))"
proof -
  let ?R = "insert P (set (filter (\<lambda>d. d \<noteq> D \<and> drive_status s ! d) (g_data_drives grp)))"
  obtain s1 where r: "rebuild_data_drive s D grp = Inr (?R, s1)"
    using rebuild_data_drive_result [OF assms(6,9), of D]
          rebuild_sources_set [OF assms(8,10), of P D]
    by simp
  have one: "rebuild_one s (dboxes s ! get_dbox_for_drive s D) D {} []
             = Inr (?R, [LocalRebuild D (card ?R)], s1)"
    using assms(4,5) r by (simp add: rebuild_one_def)
  have "\<exists>info s'. rebuild_drives s [D] bring_online = Inr (?R, info, s')"
    using assms(1,2,3) one by (simp add: rebuild_drives_def Let_def)
  moreover have "D \<notin> ?R"
  proof -
    have "D \<in> set (g_data_drives grp)"
      using assms(5) by (rule find_group_holds)
    with assms(7) have "P \<noteq> D" by blast
    then show ?thesis by auto
  qed
  ultimately show ?thesis by blast
qed

text \<open>
  Drive 0 of the example pool is offline. Its Dbox is Dbox 0, its group has the data drives 0 to
  12 and the parity drive 38, and the rebuild of drive 0 reads drive 38 and the drives 1 to 12.
\<close>

theorem rebuild_drives_reads_witness:
  "0 < length (drive_status (degraded_pool 7))
   \<and> \<not> drive_status (degraded_pool 7) ! 0
   \<and> get_dbox_for_drive (degraded_pool 7) 0 < length (dboxes (degraded_pool 7))
   \<and> get_drive_type (degraded_pool 7) 0 = Data
   \<and> find_group (\<lambda>g. 0 \<in> set (g_data_drives g))
        (local_groups (dboxes (degraded_pool 7) ! get_dbox_for_drive (degraded_pool 7) 0))
      = Some \<lparr>g_data_drives = [0 ..< 13], g_parity_drive = Some 38\<rparr>
   \<and> 38 \<notin> set [0 ..< 13 :: nat]
   \<and> 0 < drive_size (degraded_pool 7) div chunk_size (degraded_pool 7)
   \<and> drive_size (degraded_pool 7) \<le> length (drives (degraded_pool 7) 38)
   \<and> full_chunks (degraded_pool 7) [0 ..< 13] 0
   \<and> (\<exists>info s'. rebuild_drives (degraded_pool 7) [0] True
                   = Inr (insert 38 (set [1 ..< 13]), info, s'))
   \<and> 0 \<notin> insert 38 (set [1 ..< 13 :: nat])"
proof -
  let ?p = "degraded_pool 7"
  let ?g = "\<lparr>g_data_drives = [0 ..< 13], g_parity_drive = Some 38\<rparr>"
  have h1: "0 < length (drive_status ?p)" by (simp add: degraded_pool_def init_storage_def)
  have h2: "\<not> drive_status ?p ! 0" by (simp add: status_degraded_pool)
  have bx: "get_dbox_for_drive ?p 0 = 0" by (simp add: get_dbox_for_drive_def)
  have h3: "get_dbox_for_drive ?p 0 < length (dboxes ?p)"
    by (simp add: bx dboxes_degraded_pool)
  have h4: "get_drive_type ?p 0 = Data"
    by (simp add: get_drive_type_def dboxes_degraded_pool dbox_layout_def upt_eval)
  have h5: "find_group (\<lambda>g. 0 \<in> set (g_data_drives g))
              (local_groups (dboxes ?p ! get_dbox_for_drive ?p 0)) = Some ?g"
    by (simp add: bx dboxes_degraded_pool dbox_layout_def upt_eval)
  have h6: "g_parity_drive ?g = Some 38" by simp
  have h7: "38 \<notin> set (g_data_drives ?g)" by simp
  have h8: "0 < drive_size ?p div chunk_size ?p" by (simp add: degraded_pool_def init_storage_def)
  have h9: "drive_size ?p \<le> length (drives ?p 38)" by (simp add: degraded_pool_def init_storage_def)
  have h10: "full_chunks ?p (g_data_drives ?g) 0"
    using full_chunks_degraded_pool [of 13 7] by simp
  note t = rebuild_drives_reads [OF h1 h2 h3 h4 h5 h6 h7 h8 h9 h10, of True]
  have "[0 ..< 13] = 0 # [1 ..< 13 :: nat]" by (simp add: upt_conv_Cons)
  moreover have "filter (\<lambda>d. d \<noteq> 0 \<and> drive_status ?p ! d) [1 ..< 13] = [1 ..< 13]"
    by (rule filter_True) (simp add: status_degraded_pool)
  ultimately have f: "filter (\<lambda>d. d \<noteq> 0 \<and> drive_status ?p ! d) (g_data_drives ?g) = [1 ..< 13]"
    by simp
  have c1: "\<exists>info s'. rebuild_drives ?p [0] True = Inr (insert 38 (set [1 ..< 13]), info, s')"
    using t unfolding f by blast
  have c2: "0 \<notin> insert 38 (set [1 ..< 13 :: nat])" by simp
  have k7: "38 \<notin> set [0 ..< 13 :: nat]" by simp
  have k10: "full_chunks ?p [0 ..< 13] 0" using h10 by simp
  show ?thesis by (intro conjI h1 h2 h3 h4 h5 k7 h8 h9 k10 c1 c2)
qed

(*PROPS-END*)

end
